theory Spec2Isabelle
  imports Main "HOL-Library.Word"
begin

section \<open>Data model\<close>

text \<open>
  Modelled from the spec: the package \<open>api/v1beta1\<close> (the types \<open>Job\<close>, \<open>JobStatus\<close> and
  \<open>SyncStatus\<close> with its constants) is not among the source files. The status values are
  the ones the spec lists and \<open>server.go\<close> names; \<open>OtherStatus\<close> stands for every other
  value of the status type (the zero value included). \<open>JobStatus\<close> has the fields that
  \<open>server.go\<close> reads or writes; timestamps are Unix seconds (\<open>int64\<close>, only copied and
  compared, never computed with).
\<close>

datatype SyncStatus =
  PreSyncing | Syncing | Success | Failed | Paused | Disabled | OtherStatus string

record JobStatus =
  Status :: SyncStatus
  LastOnline :: int
  LastRegister :: int
  LastStarted :: int
  LastUpdate :: int
  LastEnded :: int
  Size :: string
  Scheduled :: int

text \<open>
  The stored object \<open>v1beta1.Job\<close>: its name (\<open>ObjectMeta.Name\<close>) and its \<open>Status\<close>
  (field \<open>JStatus\<close> here, since \<open>Status\<close> already names the field of \<open>JobStatus\<close>).
\<close>

record Job =
  Name :: string
  JStatus :: JobStatus

text \<open>
  The messages of package \<open>internal\<close>, as \<open>internal/msg.go\<close> declares them
  (\<open>internal/types.go\<close> declares the same package again, with further descriptive fields
  in \<open>MirrorStatus\<close> and without the \<open>MirrorSchedules\<close> and \<open>MirrorID\<close> that \<open>server.go\<close>
  uses). \<open>MirrorStatus\<close> embeds \<open>v1beta1.JobStatus\<close>.
\<close>

record MirrorStatus =
  ID :: string
  JobStatus :: JobStatus

record MirrorSchedule =
  MirrorID :: string
  NextSchedule :: int

text \<open>The local type \<open>SizeMsg\<close> of \<open>updateMirrorSize\<close> (fields \<open>ID\<close> and \<open>Size\<close>).\<close>

record SizeMsg =
  msg_ID :: string
  msg_Size :: string

subsection \<open>Command verbs (\<open>internal/msg.go\<close>)\<close>

type_synonym CmdVerb = "8 word"

definition CmdStart :: CmdVerb where "CmdStart = 0"
definition CmdStop :: CmdVerb where "CmdStop = 1"
definition CmdRestart :: CmdVerb where "CmdRestart = 2"
definition CmdPing :: CmdVerb where "CmdPing = 3"

record ClientCmd =
  Cmd :: CmdVerb
  Force :: bool

subsection \<open>Errors, responses and results\<close>

text \<open>
  An error value is the format that built it: \<open>External\<close> is an error of a library outside
  the repository (\<open>encoding/json\<close>, \<open>net/http\<close>), \<open>NotFound\<close> the store's answer for a
  missing object, and the other constructors are the \<open>fmt.Errorf\<close> and \<open>errors.New\<close>
  calls of \<open>server.go\<close>, wrapping the error they format.
\<close>

datatype error =
    External string
  | NotFound string
  | FailedToGetMirror error
  | FailedToGetJob string error
  | FailedToRegisterMirror error
  | FailedToUpdateJob string error
  | FailedToUpdateJobOfMirror string string error
  | MirrorNameEmpty
  | PostCommandFail string error

datatype body =
    ErrorJSON error
  | InfoJSON string
  | StatusJSON MirrorStatus
  | EmptyJSON
  | NoBody

text \<open>
  The request context \<open>*gin.Context\<close>: the errors attached with \<open>c.Error\<close> and the
  responses written with \<open>c.JSON\<close> and \<open>c.AbortWithStatus\<close>, in order.
\<close>

record Context =
  Errors :: "error list"
  Written :: "(nat \<times> body) list"

definition c_Error :: "Context \<Rightarrow> error \<Rightarrow> Context" where
  "c_Error c err = c\<lparr>Errors := Errors c @ [err]\<rparr>"

definition c_JSON :: "Context \<Rightarrow> nat \<Rightarrow> body \<Rightarrow> Context" where
  "c_JSON c code obj = c\<lparr>Written := Written c @ [(code, obj)]\<rparr>"

definition c_AbortWithStatus :: "Context \<Rightarrow> nat \<Rightarrow> Context" where
  "c_AbortWithStatus c code = c\<lparr>Written := Written c @ [(code, NoBody)]\<rparr>"

definition returnErrJSON :: "Context \<Rightarrow> nat \<Rightarrow> error \<Rightarrow> Context" where
  "returnErrJSON c code err = c_JSON c code (ErrorJSON err)"

section \<open>Decoding command verbs\<close>

text \<open>
  \<open>NewCmdVerbFromString\<close> indexes a Go map; a key that is not in the map yields the zero
  value of \<open>CmdVerb\<close>.
\<close>

definition cmdVerbMapping :: "(string \<times> CmdVerb) list" where
  "cmdVerbMapping =
     [(''start'', CmdStart), (''stop'', CmdStop), (''restart'', CmdRestart), (''ping'', CmdPing)]"

definition NewCmdVerbFromString :: "string \<Rightarrow> CmdVerb" where
  "NewCmdVerbFromString s = (case map_of cmdVerbMapping s of Some v \<Rightarrow> v | None \<Rightarrow> 0)"

text \<open>
  \<open>UnmarshalJSON\<close>: \<open>unmarshal\<close> is \<open>json.Unmarshal\<close> into a string (outside the
  repository), \<open>s\<close> the receiver's value before the call; the result is the receiver's
  value after the call and the returned error.
\<close>

definition UnmarshalJSON ::
  "('b \<Rightarrow> error + string) \<Rightarrow> CmdVerb \<Rightarrow> 'b \<Rightarrow> CmdVerb \<times> error option" where
  "UnmarshalJSON unmarshal s b =
     (case unmarshal b of
        Inl err \<Rightarrow> (s, Some err)
      | Inr j \<Rightarrow> (NewCmdVerbFromString j, None))"

section \<open>The manager and its store\<close>

text \<open>
  The calls a handler makes out of the manager, recorded in order: \<open>Get\<close> and \<open>Update\<close> on
  the store client \<open>m.client\<close>, and the outbound request of \<open>PostJSON\<close> with the mirror
  ID and the object it is given.
\<close>

datatype call = GetCall string | UpdateCall string | PostCall string ClientCmd

text \<open>
  The state of \<open>Manager\<close> that the handlers use, with its environment:
  \<^item> \<open>client\<close>: the store behind \<open>m.client\<close>, the status of each \<open>Job\<close> object by the
    object's name (one namespace);
  \<^item> \<open>rwmu\<close>: whether \<open>m.rwmu\<close> is write-locked;
  \<^item> \<open>calls\<close>: the history of the calls made on \<open>m.client\<close> and by \<open>PostJSON\<close>;
  \<^item> \<open>clock\<close> and \<open>ticks\<close>: the system clock, as the sequence of the values that
    successive \<open>time.Now().Unix()\<close> calls return, and the number of calls made so far.
\<close>

record Manager =
  client :: "string \<rightharpoonup> JobStatus"
  rwmu :: bool
  calls :: "call list"
  clock :: "nat \<Rightarrow> int"
  ticks :: nat

definition time_Now :: "Manager \<Rightarrow> Manager \<times> int" where
  "time_Now m = (m\<lparr>ticks := Suc (ticks m)\<rparr>, clock m (ticks m))"

text \<open>
  The store client is a library outside the repository. Its contract here: \<open>Get\<close>
  answers with the object of that name or \<open>NotFound\<close>; \<open>Update\<close> replaces the object of
  the same name or answers \<open>NotFound\<close>.
\<close>

definition client_Get :: "Manager \<Rightarrow> string \<Rightarrow> Manager \<times> (error + Job)" where
  "client_Get m name =
     (m\<lparr>calls := calls m @ [GetCall name]\<rparr>,
      case client m name of
        None \<Rightarrow> Inl (NotFound name)
      | Some st \<Rightarrow> Inr \<lparr>Name = name, JStatus = st\<rparr>)"

definition client_Update :: "Manager \<Rightarrow> Job \<Rightarrow> Manager \<times> error option" where
  "client_Update m job =
     (let m' = m\<lparr>calls := calls m @ [UpdateCall (Name job)]\<rparr>
      in case client m (Name job) of
           None \<Rightarrow> (m', Some (NotFound (Name job)))
         | Some old \<Rightarrow> (m'\<lparr>client := (client m)(Name job \<mapsto> JStatus job)\<rparr>, None))"

text \<open>
  \<open>rwmu.Lock()\<close> returns only when no one holds the lock: \<open>None\<close> is a caller that waits
  for ever. \<open>rwmu.Unlock()\<close> releases it.
\<close>

definition Lock :: "Manager \<Rightarrow> Manager option" where
  "Lock m = (if rwmu m then None else Some (m\<lparr>rwmu := True\<rparr>))"

definition Unlock :: "Manager \<Rightarrow> Manager" where
  "Unlock m = m\<lparr>rwmu := False\<rparr>"

text \<open>
  What a piece of a handler does with the manager and the request context: it returns a
  value, or panics (a nil pointer dereference) and leaves the state as it is at that
  point, or blocks on the lock.
\<close>

type_synonym state = "Manager \<times> Context"

datatype 'a result = Return state 'a | Panic state | Block

fun bind_result :: "'a result \<Rightarrow> (state \<Rightarrow> 'a \<Rightarrow> 'b result) \<Rightarrow> 'b result" where
  "bind_result (Return s a) f = f s a"
| "bind_result (Panic s) f = Panic s"
| "bind_result Block f = Block"

section \<open>Store access of the manager (\<open>manager/server.go\<close>)\<close>

definition GetJobRaw :: "Manager \<Rightarrow> Context \<Rightarrow> string \<Rightarrow> Manager \<times> Context \<times> (error + Job)" where
  "GetJobRaw m c mirrorID =
     (case client_Get m mirrorID of
        (m', Inl e) \<Rightarrow>
          (let err = FailedToGetMirror e
           in (m', returnErrJSON (c_Error c err) 500 err, Inl err))
      | (m', Inr job) \<Rightarrow> (m', c, Inr job))"

text \<open>
  \<open>GetJob\<close> reads \<open>job.Status\<close> whatever \<open>GetJobRaw\<close> returned; \<open>job\<close> is nil when
  \<open>GetJobRaw\<close> returned an error.
\<close>

definition GetJob :: "Manager \<Rightarrow> Context \<Rightarrow> string \<Rightarrow> (MirrorStatus \<times> error option) result" where
  "GetJob m c mirrorID =
     (case GetJobRaw m c mirrorID of
        (m', c', Inl err) \<Rightarrow> Panic (m', c')
      | (m', c', Inr job) \<Rightarrow>
          Return (m', c') (\<lparr>ID = mirrorID, JobStatus = JStatus job\<rparr>, None))"

definition UpdateJobStatus :: "Manager \<Rightarrow> Context \<Rightarrow> MirrorStatus \<Rightarrow> Manager \<times> Context \<times> error option" where
  "UpdateJobStatus m c w =
     (case GetJobRaw m c (ID w) of
        (m1, c1, Inl err) \<Rightarrow> (m1, c1, Some err)
      | (m1, c1, Inr job) \<Rightarrow>
          (let job1 = job\<lparr>JStatus := JobStatus w\<rparr>;
               (m2, now) = time_Now m1;
               job2 = job1\<lparr>JStatus := (JStatus job1)\<lparr>LastOnline := now\<rparr>\<rparr>;
               (m3, err) = client_Update m2 job2
           in (m3, c1, err)))"

text \<open>
  The two locked sections that the handlers are made of:
  \<open>s.rwmu.Lock(); x, err := s.GetJob(c, id); s.rwmu.Unlock()\<close> and
  \<open>s.rwmu.Lock(); err = s.UpdateJobStatus(c, w); s.rwmu.Unlock()\<close>. A panic inside the
  first skips its \<open>Unlock\<close>.
\<close>

definition lockedGetJob :: "Manager \<Rightarrow> Context \<Rightarrow> string \<Rightarrow> (MirrorStatus \<times> error option) result" where
  "lockedGetJob m c mirrorID =
     (case Lock m of
        None \<Rightarrow> Block
      | Some m1 \<Rightarrow>
          bind_result (GetJob m1 c mirrorID) (\<lambda>(m2, c2) r. Return (Unlock m2, c2) r))"

definition lockedUpdateJobStatus :: "Manager \<Rightarrow> Context \<Rightarrow> MirrorStatus \<Rightarrow> (error option) result" where
  "lockedUpdateJobStatus m c w =
     (case Lock m of
        None \<Rightarrow> Block
      | Some m1 \<Rightarrow>
          (case UpdateJobStatus m1 c w of (m2, c2, err) \<Rightarrow> Return (Unlock m2, c2) err))"

section \<open>The handlers (\<open>manager/server.go\<close>)\<close>

text \<open>
  A handler takes the manager, the request context and the request as \<open>c.Param\<close> and
  \<open>c.BindJSON\<close> decoded it. Logging is left out.
\<close>

subsection \<open>\<open>getJob\<close>\<close>

definition getJob :: "Manager \<Rightarrow> Context \<Rightarrow> string \<Rightarrow> unit result" where
  "getJob m c mirrorID =
     bind_result (lockedGetJob m c mirrorID) (\<lambda>(m1, c1) (status, err).
       case err of
         Some e \<Rightarrow>
           (let err' = FailedToGetJob mirrorID e
            in Return (m1, returnErrJSON (c_Error c1 err') 500 err') ())
       | None \<Rightarrow> Return (m1, c_JSON c1 200 (StatusJSON status)) ())"

subsection \<open>\<open>registerMirror\<close>\<close>

definition registerMirror :: "Manager \<Rightarrow> Context \<Rightarrow> MirrorStatus \<Rightarrow> unit result" where
  "registerMirror m c mirror0 =
     (let (m1, t1) = time_Now m;
          mirror1 = mirror0\<lparr>JobStatus := (JobStatus mirror0)\<lparr>LastOnline := t1\<rparr>\<rparr>;
          (m2, t2) = time_Now m1;
          mirror2 = mirror1\<lparr>JobStatus := (JobStatus mirror1)\<lparr>LastRegister := t2\<rparr>\<rparr>
      in bind_result (lockedUpdateJobStatus m2 c mirror2) (\<lambda>(m3, c3) err.
           case err of
             Some e \<Rightarrow>
               (let err' = FailedToRegisterMirror e
                in Return (m3, returnErrJSON (c_Error c3 err') 500 err') ())
           | None \<Rightarrow> Return (m3, c_JSON c3 200 (StatusJSON mirror2)) ()))"

subsection \<open>\<open>updateSchedules\<close>\<close>

text \<open>
  The loop over \<open>schedules.Schedules\<close>, then the final response. After the response for an
  empty \<open>mirrorID\<close> the loop body goes on (there is no \<open>continue\<close> or \<open>return\<close> in that
  branch).
\<close>

fun updateSchedules :: "Manager \<Rightarrow> Context \<Rightarrow> MirrorSchedule list \<Rightarrow> unit result" where
  "updateSchedules m c [] = Return (m, c_JSON c 200 EmptyJSON) ()"
| "updateSchedules m c (schedule # rest) =
     (let mirrorID = MirrorID schedule;
          c0 = (if length mirrorID = 0 then returnErrJSON c 400 MirrorNameEmpty else c)
      in bind_result (lockedGetJob m c0 mirrorID) (\<lambda>(m1, c1) (curStatus, err).
           case err of
             Some e \<Rightarrow> updateSchedules m1 c1 rest
           | None \<Rightarrow>
               if Scheduled (JobStatus curStatus) = NextSchedule schedule
               then updateSchedules m1 c1 rest
               else
                 (let curStatus' =
                        curStatus\<lparr>JobStatus := (JobStatus curStatus)\<lparr>Scheduled := NextSchedule schedule\<rparr>\<rparr>
                  in bind_result (lockedUpdateJobStatus m1 c1 curStatus') (\<lambda>(m2, c2) err2.
                       case err2 of
                         Some e \<Rightarrow>
                           (let err' = FailedToUpdateJob mirrorID e
                            in Return (m2, returnErrJSON (c_Error c2 err') 500 err') ())
                       | None \<Rightarrow> updateSchedules m2 c2 rest))))"

subsection \<open>\<open>updateJob\<close>\<close>

text \<open>
  Lines 373 to 399 of \<open>updateJob\<close>: the fields of the incoming \<open>status\<close> that the handler
  sets from the current status and the time it read.
\<close>

definition updateJob_merge :: "MirrorStatus \<Rightarrow> MirrorStatus \<Rightarrow> int \<Rightarrow> MirrorStatus" where
  "updateJob_merge curStatus status curTime =
     (let cur = JobStatus curStatus;
          s1 = (JobStatus status)\<lparr>LastOnline := curTime\<rparr>;
          s2 = (if Status s1 = PreSyncing \<and> Status cur \<noteq> PreSyncing
                then s1\<lparr>LastStarted := curTime\<rparr>
                else s1\<lparr>LastStarted := LastStarted cur\<rparr>);
          s3 = (if Status s2 = Success
                then s2\<lparr>LastUpdate := curTime\<rparr>
                else s2\<lparr>LastUpdate := LastUpdate cur\<rparr>);
          s4 = (if Status s3 = Success \<or> Status s3 = Failed
                then s3\<lparr>LastEnded := curTime\<rparr>
                else s3\<lparr>LastEnded := LastEnded cur\<rparr>);
          s5 = (if length (Size cur) > 0 \<and> Size cur \<noteq> ''unknown''
                then (if length (Size s4) = 0 \<or> Size s4 = ''unknown''
                      then s4\<lparr>Size := Size cur\<rparr> else s4)
                else s4)
      in status\<lparr>JobStatus := s5\<rparr>)"

text \<open>
  \<open>updateJob_write\<close> is the handler from line 373 on, after the locked read of the current
  status. The stored object is the one that the request body names (\<open>status.ID\<close>), the
  current status the one of the path parameter \<open>mirrorID\<close>.
\<close>

definition updateJob_write ::
  "string \<Rightarrow> MirrorStatus \<Rightarrow> state \<Rightarrow> MirrorStatus \<times> error option \<Rightarrow> unit result" where
  "updateJob_write mirrorID status0 s r =
     (case (s, r) of ((m1, c1), (curStatus, err0)) \<Rightarrow>
        (let (m2, curTime) = time_Now m1;
             status = updateJob_merge curStatus status0 curTime
         in bind_result (lockedUpdateJobStatus m2 c1 status) (\<lambda>(m3, c3) err.
              case err of
                Some e \<Rightarrow>
                  (let err' = FailedToUpdateJob mirrorID e
                   in Return (m3, returnErrJSON (c_Error c3 err') 500 err') ())
              | None \<Rightarrow> Return (m3, c_JSON c3 200 (StatusJSON status)) ())))"

definition updateJob :: "Manager \<Rightarrow> Context \<Rightarrow> string \<Rightarrow> MirrorStatus \<Rightarrow> unit result" where
  "updateJob m c mirrorID status0 =
     bind_result (lockedGetJob m c mirrorID) (updateJob_write mirrorID status0)"

subsection \<open>\<open>updateMirrorSize\<close>\<close>

text \<open>\<open>updateMirrorSize_write\<close> is the handler from line 438 on.\<close>

definition updateMirrorSize_write ::
  "string \<Rightarrow> SizeMsg \<Rightarrow> state \<Rightarrow> MirrorStatus \<times> error option \<Rightarrow> unit result" where
  "updateMirrorSize_write mirrorID msg s r =
     (case (s, r) of ((m1, c1), (status0, err0)) \<Rightarrow>
        (case err0 of
           Some e \<Rightarrow> Return (m1, returnErrJSON c1 500 e) ()
         | None \<Rightarrow>
             (let status =
                    (if length (msg_Size msg) > 0 \<or> msg_Size msg \<noteq> ''unknown''
                     then status0\<lparr>JobStatus := (JobStatus status0)\<lparr>Size := msg_Size msg\<rparr>\<rparr>
                     else status0)
              in bind_result (lockedUpdateJobStatus m1 c1 status) (\<lambda>(m2, c2) err.
                   case err of
                     Some e \<Rightarrow>
                       (let err' = FailedToUpdateJobOfMirror (msg_ID msg) mirrorID e
                        in Return (m2, returnErrJSON (c_Error c2 err') 500 err') ())
                   | None \<Rightarrow> Return (m2, c_JSON c2 200 (StatusJSON status)) ()))))"

definition updateMirrorSize :: "Manager \<Rightarrow> Context \<Rightarrow> string \<Rightarrow> SizeMsg \<Rightarrow> unit result" where
  "updateMirrorSize m c mirrorID msg =
     bind_result (lockedGetJob m c mirrorID) (updateMirrorSize_write mirrorID msg)"

subsection \<open>\<open>PostJSON\<close> and \<open>handleClientCmd\<close>\<close>

text \<open>
  \<open>PostJSON\<close> encodes the object and posts it with the HTTP client: the outbound request
  is an event of the history, and \<open>post\<close> is the error that the encoding and the request
  return (the network and the worker are outside the repository).
\<close>

definition PostJSON :: "Manager \<Rightarrow> string \<Rightarrow> ClientCmd \<Rightarrow> error option \<Rightarrow> Manager \<times> error option" where
  "PostJSON m mirrorID obj post = (m\<lparr>calls := calls m @ [PostCall mirrorID obj]\<rparr>, post)"

text \<open>
  \<open>internal.CmdDisable\<close> is not declared in the source files: it is the parameter
  \<open>CmdDisable\<close>. The switch of line 500 has it as its first case.
  \<open>handleClientCmd_write\<close> is the handler from line 499 to line 512, after the locked
  read of the current status: the error of \<open>UpdateJobStatus\<close> on line 510 is dropped.
  \<open>handleClientCmd_local\<close> is the handler from line 495 to line 512,
  \<open>handleClientCmd_post\<close> the rest.
\<close>

definition handleClientCmd_write ::
  "CmdVerb \<Rightarrow> ClientCmd \<Rightarrow> state \<Rightarrow> MirrorStatus \<times> error option \<Rightarrow> unit result" where
  "handleClientCmd_write CmdDisable clientCmd s r =
     (case (s, r) of ((m1, c1), (curStat0, err0)) \<Rightarrow>
        (let (curStat, changed) =
               (if Cmd clientCmd = CmdDisable
                then (curStat0\<lparr>JobStatus := (JobStatus curStat0)\<lparr>Status := Disabled\<rparr>\<rparr>, True)
                else if Cmd clientCmd = CmdStop
                then (curStat0\<lparr>JobStatus := (JobStatus curStat0)\<lparr>Status := Paused\<rparr>\<rparr>, True)
                else (curStat0, False))
         in if changed
            then bind_result (lockedUpdateJobStatus m1 c1 curStat) (\<lambda>s2 err. Return s2 ())
            else Return (m1, c1) ()))"

definition handleClientCmd_local ::
  "CmdVerb \<Rightarrow> Manager \<Rightarrow> Context \<Rightarrow> string \<Rightarrow> ClientCmd \<Rightarrow> unit result" where
  "handleClientCmd_local CmdDisable m c mirrorID clientCmd =
     bind_result (lockedGetJob m c mirrorID) (handleClientCmd_write CmdDisable clientCmd)"

definition handleClientCmd_post ::
  "string \<Rightarrow> ClientCmd \<Rightarrow> error option \<Rightarrow> state \<Rightarrow> unit \<Rightarrow> unit result" where
  "handleClientCmd_post mirrorID clientCmd post s u =
     (case s of (m, c) \<Rightarrow>
        (case PostJSON m mirrorID clientCmd post of
           (m', Some e) \<Rightarrow>
             (let err' = PostCommandFail mirrorID e
              in Return (m', returnErrJSON (c_Error c err') 500 err') ())
         | (m', None) \<Rightarrow>
             Return (m', c_JSON c 200
               (InfoJSON (''successfully send command to mirror '' @ mirrorID))) ()))"

definition handleClientCmd ::
  "CmdVerb \<Rightarrow> Manager \<Rightarrow> Context \<Rightarrow> string \<Rightarrow> ClientCmd \<Rightarrow> error option \<Rightarrow> unit result" where
  "handleClientCmd CmdDisable m c mirrorID clientCmd post =
     (if mirrorID = []
      then Return (m, c_AbortWithStatus c 500) ()
      else bind_result (handleClientCmd_local CmdDisable m c mirrorID clientCmd)
             (handleClientCmd_post mirrorID clientCmd post))"

section \<open>Counting writes, crashes and schedules of two requests\<close>

text \<open>The number of \<open>Update\<close> calls in the history.\<close>

fun isUpdateCall :: "call \<Rightarrow> bool" where
  "isUpdateCall (UpdateCall name) = True"
| "isUpdateCall (GetCall name) = False"
| "isUpdateCall (PostCall name obj) = False"

definition writes :: "Manager \<Rightarrow> nat" where
  "writes m = length (filter isUpdateCall (calls m))"

fun isPanic :: "'a result \<Rightarrow> bool" where
  "isPanic (Panic s) = True"
| "isPanic (Return s a) = False"
| "isPanic Block = False"




section \<open>The states of a locked section\<close>





section \<open>Example states\<close>

definition ex_status :: JobStatus where
  "ex_status =
     \<lparr>Status = Syncing, LastOnline = 1, LastRegister = 2, LastStarted = 3, LastUpdate = 4,
      LastEnded = 5, Size = ''10G'', Scheduled = 6\<rparr>"

definition ex_clock :: "nat \<Rightarrow> int" where
  "ex_clock n = 100 + int n"

definition ex_manager :: Manager where
  "ex_manager =
     \<lparr>client = [''m1'' \<mapsto> ex_status], rwmu = False, calls = [], clock = ex_clock, ticks = 0\<rparr>"

definition ex_context :: Context where
  "ex_context = \<lparr>Errors = [], Written = []\<rparr>"

definition ex_fleet :: Manager where
  "ex_fleet =
     \<lparr>client = [''A'' \<mapsto> ex_status, ''B'' \<mapsto> ex_status], rwmu = False, calls = [],
      clock = ex_clock, ticks = 0\<rparr>"

text \<open>
  The mirror \<open>m1\<close> with no known size yet, a size message for it and a status report for
  it that carries no size.
\<close>

definition ex_unsized :: Manager where
  "ex_unsized = ex_manager\<lparr>client := [''m1'' \<mapsto> ex_status\<lparr>Size := ''unknown''\<rparr>]\<rparr>"

definition ex_sizeMsg :: SizeMsg where
  "ex_sizeMsg = \<lparr>msg_ID = ''m1'', msg_Size = ''10G''\<rparr>"

definition ex_report :: MirrorStatus where
  "ex_report = \<lparr>ID = ''m1'', JobStatus = ex_status\<lparr>Status := Success, Size := []\<rparr>\<rparr>"

section \<open>The locked sections\<close>

lemma lockedGetJob_eq:
  "lockedGetJob m c mirrorID =
     (if rwmu m then Block
      else case client m mirrorID of
        None \<Rightarrow>
          Panic (m\<lparr>rwmu := True, calls := calls m @ [GetCall mirrorID]\<rparr>,
                 returnErrJSON (c_Error c (FailedToGetMirror (NotFound mirrorID))) 500
                   (FailedToGetMirror (NotFound mirrorID)))
      | Some st \<Rightarrow>
          Return (m\<lparr>calls := calls m @ [GetCall mirrorID]\<rparr>, c)
            (\<lparr>ID = mirrorID, JobStatus = st\<rparr>, None))"
  by (cases "rwmu m")
     (simp_all add: lockedGetJob_def Lock_def Unlock_def GetJob_def GetJobRaw_def client_Get_def
        Let_def split: option.split)

lemma lockedUpdateJobStatus_eq:
  "lockedUpdateJobStatus m c w =
     (if rwmu m then Block
      else case client m (ID w) of
        None \<Rightarrow>
          Return (m\<lparr>calls := calls m @ [GetCall (ID w)]\<rparr>,
                  returnErrJSON (c_Error c (FailedToGetMirror (NotFound (ID w)))) 500
                    (FailedToGetMirror (NotFound (ID w))))
            (Some (FailedToGetMirror (NotFound (ID w))))
      | Some st \<Rightarrow>
          Return (m\<lparr>client := (client m)(ID w \<mapsto> (JobStatus w)\<lparr>LastOnline := clock m (ticks m)\<rparr>),
                    calls := calls m @ [GetCall (ID w), UpdateCall (ID w)],
                    ticks := Suc (ticks m)\<rparr>, c) None)"
  by (cases "rwmu m")
     (simp_all add: lockedUpdateJobStatus_def Lock_def Unlock_def UpdateJobStatus_def GetJobRaw_def
        client_Get_def client_Update_def time_Now_def Let_def split: option.split)

lemmas ex_defs = ex_manager_def ex_fleet_def ex_context_def ex_status_def ex_clock_def
  ex_unsized_def ex_sizeMsg_def ex_report_def

lemmas ctx_defs = returnErrJSON_def c_Error_def c_JSON_def c_AbortWithStatus_def

section \<open>Size updates\<close>

text \<open>
  The merge of \<open>updateJob\<close> keeps a known size when the report carries none: the sibling
  path of the size rule.
\<close>

lemma updateJob_merge_keeps_known_size:
  "Size (JobStatus curStatus) \<noteq> [] \<Longrightarrow> Size (JobStatus curStatus) \<noteq> ''unknown'' \<Longrightarrow>
   Size (JobStatus status) = [] \<or> Size (JobStatus status) = ''unknown'' \<Longrightarrow>
   Size (JobStatus (updateJob_merge curStatus status curTime)) = Size (JobStatus curStatus)"
  by (auto simp add: updateJob_merge_def Let_def)

text \<open>
  \<open>updateMirrorSize\<close>, for a mirror that the store holds, stores whatever size the message
  carries.
\<close>

lemma updateMirrorSize_stores_any_size:
  "\<not> rwmu m \<Longrightarrow> client m mirrorID = Some st \<Longrightarrow>
   updateMirrorSize m c mirrorID msg =
     Return
       (m\<lparr>client := (client m)(mirrorID \<mapsto>
              st\<lparr>Size := msg_Size msg, LastOnline := clock m (ticks m)\<rparr>),
          calls := calls m @ [GetCall mirrorID, GetCall mirrorID, UpdateCall mirrorID],
          ticks := Suc (ticks m)\<rparr>,
        c_JSON c 200 (StatusJSON \<lparr>ID = mirrorID, JobStatus = st\<lparr>Size := msg_Size msg\<rparr>\<rparr>)) ()"
  by (auto simp add: updateMirrorSize_def updateMirrorSize_write_def lockedGetJob_eq
      lockedUpdateJobStatus_eq)

text \<open>
  C1 (size monotonicity), at a failing input. The mirror \<open>m1\<close> has the known size \<open>10G\<close>.
  An \<open>updateMirrorSize\<close> request whose size is \<open>unknown\<close>, and one whose size is empty,
  each replace the stored size by the incoming one: the condition of line 448 is a
  disjunction that every size satisfies.
\<close>

theorem updateMirrorSize_overwrites_known_size:
  "updateMirrorSize ex_manager ex_context ''m1'' \<lparr>msg_ID = ''m1'', msg_Size = ''unknown''\<rparr> =
     Return
       (ex_manager\<lparr>client := [''m1'' \<mapsto> ex_status\<lparr>LastOnline := 100, Size := ''unknown''\<rparr>],
                   calls := [GetCall ''m1'', GetCall ''m1'', UpdateCall ''m1''],
                   ticks := 1\<rparr>,
        ex_context\<lparr>Written :=
          [(200, StatusJSON \<lparr>ID = ''m1'', JobStatus = ex_status\<lparr>Size := ''unknown''\<rparr>\<rparr>)]\<rparr>) ()
   \<and> updateMirrorSize ex_manager ex_context ''m1'' \<lparr>msg_ID = ''m1'', msg_Size = []\<rparr> =
     Return
       (ex_manager\<lparr>client := [''m1'' \<mapsto> ex_status\<lparr>LastOnline := 100, Size := []\<rparr>],
                   calls := [GetCall ''m1'', GetCall ''m1'', UpdateCall ''m1''],
                   ticks := 1\<rparr>,
        ex_context\<lparr>Written :=
          [(200, StatusJSON \<lparr>ID = ''m1'', JobStatus = ex_status\<lparr>Size := []\<rparr>\<rparr>)]\<rparr>) ()
   \<and> Size ex_status = ''10G''"
  by (simp add: updateMirrorSize_def updateMirrorSize_write_def lockedGetJob_eq
      lockedUpdateJobStatus_eq ctx_defs ex_defs)

section \<open>The lock around the store accesses\<close>






section \<open>A failed get\<close>

text \<open>
  The panic of the locked read skips the \<open>Unlock\<close>: the lock stays held, and a locked
  section that comes later blocks.
\<close>

lemma lockedGetJob_panic_holds_lock:
  "lockedGetJob m c mirrorID = Panic (m', c') \<Longrightarrow>
   rwmu m' \<and> lockedGetJob m' c2 mirrorID2 = Block \<and> lockedUpdateJobStatus m' c2 w = Block"
  by (auto simp add: lockedGetJob_eq lockedUpdateJobStatus_eq split: if_splits option.splits)

text \<open>
  C3. When \<open>GetJobRaw\<close> returns an error, \<open>GetJob\<close> panics in the state that \<open>GetJobRaw\<close>
  left; the get of a mirror that the store does not hold is such a failure; a \<open>GetJob\<close>
  that returns never returns an error; and each handler that calls \<open>GetJob\<close> for a
  mirror that the store does not hold panics (\<open>handleClientCmd\<close> calls it when the
  mirror ID is not empty, \<open>updateSchedules\<close> for the item it has reached).
\<close>

theorem GetJob_failed_get_panics:
  "(\<forall>m' c' err. GetJobRaw m c mirrorID = (m', c', Inl err) \<longrightarrow>
       GetJob m c mirrorID = Panic (m', c'))
   \<and> (client m mirrorID = None \<longrightarrow>
        (\<exists>m' c' err. GetJobRaw m c mirrorID = (m', c', Inl err)))
   \<and> (\<forall>s w err. GetJob m c mirrorID = Return s (w, err) \<longrightarrow> err = None)
   \<and> (\<not> rwmu m \<and> client m mirrorID = None \<longrightarrow>
        isPanic (getJob m c mirrorID)
        \<and> isPanic (updateJob m c mirrorID status)
        \<and> isPanic (updateMirrorSize m c mirrorID msg)
        \<and> isPanic (updateSchedules m c (\<lparr>MirrorID = mirrorID, NextSchedule = t\<rparr> # rest))
        \<and> (mirrorID \<noteq> [] \<longrightarrow> isPanic (handleClientCmd CmdDisable m c mirrorID clientCmd post)))"
proof (intro conjI)
  show "\<forall>m' c' err. GetJobRaw m c mirrorID = (m', c', Inl err) \<longrightarrow>
          GetJob m c mirrorID = Panic (m', c')"
    by (simp add: GetJob_def)
  show "client m mirrorID = None \<longrightarrow>
          (\<exists>m' c' err. GetJobRaw m c mirrorID = (m', c', Inl err))"
    by (simp add: GetJobRaw_def client_Get_def Let_def)
  show "\<forall>s w err. GetJob m c mirrorID = Return s (w, err) \<longrightarrow> err = None"
    by (auto simp add: GetJob_def split: prod.splits sum.splits)
  show "\<not> rwmu m \<and> client m mirrorID = None \<longrightarrow>
        isPanic (getJob m c mirrorID)
        \<and> isPanic (updateJob m c mirrorID status)
        \<and> isPanic (updateMirrorSize m c mirrorID msg)
        \<and> isPanic (updateSchedules m c (\<lparr>MirrorID = mirrorID, NextSchedule = t\<rparr> # rest))
        \<and> (mirrorID \<noteq> [] \<longrightarrow> isPanic (handleClientCmd CmdDisable m c mirrorID clientCmd post))"
    by (simp add: getJob_def updateJob_def updateMirrorSize_def handleClientCmd_def
        handleClientCmd_local_def lockedGetJob_eq)
qed

theorem GetJob_failed_get_panics_witness:
  "GetJob ex_manager ex_context ''m2'' =
     Panic (ex_manager\<lparr>calls := [GetCall ''m2'']\<rparr>,
            ex_context\<lparr>Errors := [FailedToGetMirror (NotFound ''m2'')],
                        Written := [(500, ErrorJSON (FailedToGetMirror (NotFound ''m2'')))]\<rparr>)
   \<and> isPanic (getJob ex_manager ex_context ''m2'')
   \<and> isPanic (updateJob ex_manager ex_context ''m2'' \<lparr>ID = ''m2'', JobStatus = ex_status\<rparr>)
   \<and> isPanic (updateMirrorSize ex_manager ex_context ''m2'' \<lparr>msg_ID = ''m2'', msg_Size = ''1G''\<rparr>)
   \<and> isPanic (updateSchedules ex_manager ex_context [\<lparr>MirrorID = ''m2'', NextSchedule = 7\<rparr>])
   \<and> isPanic (handleClientCmd 4 ex_manager ex_context ''m2'' \<lparr>Cmd = CmdStop, Force = False\<rparr> None)"
proof -
  have free: "\<not> rwmu ex_manager" and absent: "client ex_manager ''m2'' = None"
    by (simp_all add: ex_manager_def)
  have raw: "GetJobRaw ex_manager ex_context ''m2'' =
     (ex_manager\<lparr>calls := [GetCall ''m2'']\<rparr>,
      ex_context\<lparr>Errors := [FailedToGetMirror (NotFound ''m2'')],
                  Written := [(500, ErrorJSON (FailedToGetMirror (NotFound ''m2'')))]\<rparr>,
      Inl (FailedToGetMirror (NotFound ''m2'')))"
    by (simp add: GetJobRaw_def client_Get_def Let_def ctx_defs ex_defs)
  from GetJob_failed_get_panics [of ex_manager ex_context "''m2''"
      "\<lparr>ID = ''m2'', JobStatus = ex_status\<rparr>" "\<lparr>msg_ID = ''m2'', msg_Size = ''1G''\<rparr>" 7 "[]"
      4 "\<lparr>Cmd = CmdStop, Force = False\<rparr>" None] free absent raw
  show ?thesis
    by simp
qed

section \<open>Timestamps of a status report\<close>

lemma updateJob_merge_timestamps:
  "LastStarted (JobStatus (updateJob_merge curStatus status curTime)) =
     (if Status (JobStatus status) = PreSyncing \<and> Status (JobStatus curStatus) \<noteq> PreSyncing
      then curTime else LastStarted (JobStatus curStatus))"
  "LastUpdate (JobStatus (updateJob_merge curStatus status curTime)) =
     (if Status (JobStatus status) = Success
      then curTime else LastUpdate (JobStatus curStatus))"
  "LastEnded (JobStatus (updateJob_merge curStatus status curTime)) =
     (if Status (JobStatus status) = Success \<or> Status (JobStatus status) = Failed
      then curTime else LastEnded (JobStatus curStatus))"
  "ID (updateJob_merge curStatus status curTime) = ID status"
  by (auto simp add: updateJob_merge_def Let_def)

lemma updateJob_eq:
  "\<not> rwmu m \<Longrightarrow> client m mirrorID = Some cur \<Longrightarrow> client m (ID status) \<noteq> None \<Longrightarrow>
   updateJob m c mirrorID status =
     (let merged = updateJob_merge \<lparr>ID = mirrorID, JobStatus = cur\<rparr> status (clock m (ticks m))
      in Return
           (m\<lparr>client := (client m)(ID status \<mapsto>
                  (JobStatus merged)\<lparr>LastOnline := clock m (Suc (ticks m))\<rparr>),
               calls := calls m @ [GetCall mirrorID, GetCall (ID status), UpdateCall (ID status)],
               ticks := Suc (Suc (ticks m))\<rparr>,
            c_JSON c 200 (StatusJSON merged)) ())"
  by (auto simp add: updateJob_def updateJob_write_def lockedGetJob_eq lockedUpdateJobStatus_eq
      time_Now_def Let_def updateJob_merge_timestamps)

text \<open>
  C4. A status report for a mirror that the store holds (\<open>cur\<close> is the stored status of
  the mirror of the path, and the store holds the mirror that the report names) is
  answered with 200 and stored with: \<open>LastStarted\<close> the time read on line 373 if the
  report's status is \<open>PreSyncing\<close> and the current one is not, the current \<open>LastStarted\<close>
  otherwise; \<open>LastUpdate\<close> that time if the report's status is \<open>Success\<close>, the current
  \<open>LastUpdate\<close> otherwise; \<open>LastEnded\<close> that time if the report's status is \<open>Success\<close> or
  \<open>Failed\<close>, the current \<open>LastEnded\<close> otherwise.
\<close>

theorem updateJob_timestamps:
  assumes "\<not> rwmu m" and "client m mirrorID = Some cur" and "client m (ID status) \<noteq> None"
  shows "\<exists>m' c' st.
           updateJob m c mirrorID status = Return (m', c') ()
           \<and> client m' (ID status) = Some st
           \<and> LastStarted st =
               (if Status (JobStatus status) = PreSyncing \<and> Status cur \<noteq> PreSyncing
                then clock m (ticks m) else LastStarted cur)
           \<and> LastUpdate st =
               (if Status (JobStatus status) = Success
                then clock m (ticks m) else LastUpdate cur)
           \<and> LastEnded st =
               (if Status (JobStatus status) = Success \<or> Status (JobStatus status) = Failed
                then clock m (ticks m) else LastEnded cur)
           \<and> Status st = Status (JobStatus status)
           \<and> Written c' = Written c @
               [(200, StatusJSON (updateJob_merge \<lparr>ID = mirrorID, JobStatus = cur\<rparr> status
                                    (clock m (ticks m))))]"
  using assms
  by (simp add: updateJob_eq Let_def updateJob_merge_timestamps c_JSON_def)
     (simp add: updateJob_merge_def Let_def)

theorem updateJob_timestamps_witness:
  "\<exists>m' c' st.
     updateJob ex_manager ex_context ''m1''
       \<lparr>ID = ''m1'', JobStatus = ex_status\<lparr>Status := Failed\<rparr>\<rparr> = Return (m', c') ()
     \<and> client m' ''m1'' = Some st
     \<and> LastStarted st = 3 \<and> LastUpdate st = 4 \<and> LastEnded st = 100 \<and> Status st = Failed"
proof -
  let ?report = "\<lparr>ID = ''m1'', JobStatus = ex_status\<lparr>Status := Failed\<rparr>\<rparr>"
  have free: "\<not> rwmu ex_manager"
    and stored: "client ex_manager ''m1'' = Some ex_status"
    and named: "client ex_manager (ID ?report) \<noteq> None"
    by (simp_all add: ex_manager_def)
  from updateJob_timestamps [OF free stored named, of ex_context]
  obtain m' c' st where
    "updateJob ex_manager ex_context ''m1'' ?report = Return (m', c') ()"
    "client m' (ID ?report) = Some st"
    "LastStarted st =
       (if Status (JobStatus ?report) = PreSyncing \<and> Status ex_status \<noteq> PreSyncing
        then clock ex_manager (ticks ex_manager) else LastStarted ex_status)"
    "LastUpdate st =
       (if Status (JobStatus ?report) = Success
        then clock ex_manager (ticks ex_manager) else LastUpdate ex_status)"
    "LastEnded st =
       (if Status (JobStatus ?report) = Success \<or> Status (JobStatus ?report) = Failed
        then clock ex_manager (ticks ex_manager) else LastEnded ex_status)"
    "Status st = Status (JobStatus ?report)"
    by blast
  then show ?thesis
    by (intro exI [of _ m'] exI [of _ c'] exI [of _ st]) (simp add: ex_defs)
qed

section \<open>Registration\<close>

text \<open>
  C5, as stated, fails on a store that does not hold the mirror: \<open>registerMirror\<close> calls
  \<open>UpdateJobStatus\<close>, whose get fails, so that no object is created (the store stays
  empty, no \<open>Update\<close> is called) and the response is an error.
\<close>

theorem registerMirror_creates_nothing:
  "registerMirror (ex_manager\<lparr>client := Map.empty\<rparr>) ex_context
       \<lparr>ID = ''m1'', JobStatus = ex_status\<rparr> =
     Return
       (ex_manager\<lparr>client := Map.empty, calls := [GetCall ''m1''], ticks := 2\<rparr>,
        ex_context
          \<lparr>Errors := [FailedToGetMirror (NotFound ''m1''),
                      FailedToRegisterMirror (FailedToGetMirror (NotFound ''m1''))],
           Written := [(500, ErrorJSON (FailedToGetMirror (NotFound ''m1''))),
                       (500, ErrorJSON (FailedToRegisterMirror
                                          (FailedToGetMirror (NotFound ''m1''))))]\<rparr>) ()"
  by (simp add: registerMirror_def lockedUpdateJobStatus_eq time_Now_def Let_def ctx_defs ex_defs)

text \<open>
  C5, amended: \<open>registerMirror\<close> updates and never creates. If the store holds the
  mirror, its status becomes the status of the request with \<open>LastRegister\<close> the second
  time that the handler read and \<open>LastOnline\<close> the time that \<open>UpdateJobStatus\<close> read, and
  the response is 200 with the status of the request, \<open>LastOnline\<close> and \<open>LastRegister\<close>
  set to the two times that the handler read. If the store does not hold the mirror,
  the store stays as it is and the response is an error.
\<close>

theorem registerMirror_updates_only:
  assumes "\<not> rwmu m"
  shows "\<exists>m' c'.
           registerMirror m c mirror = Return (m', c') ()
           \<and> (case client m (ID mirror) of
                 None \<Rightarrow>
                   client m' = client m
                   \<and> Written c' = Written c @
                        [(500, ErrorJSON (FailedToGetMirror (NotFound (ID mirror)))),
                         (500, ErrorJSON (FailedToRegisterMirror
                                            (FailedToGetMirror (NotFound (ID mirror)))))]
               | Some old \<Rightarrow>
                   client m' = (client m)(ID mirror \<mapsto>
                       (JobStatus mirror)\<lparr>LastRegister := clock m (Suc (ticks m)),
                                           LastOnline := clock m (Suc (Suc (ticks m)))\<rparr>)
                   \<and> Written c' = Written c @
                        [(200, StatusJSON (mirror\<lparr>JobStatus :=
                            (JobStatus mirror)\<lparr>LastOnline := clock m (ticks m),
                                                LastRegister := clock m (Suc (ticks m))\<rparr>\<rparr>))])"
  using assms
  by (simp add: registerMirror_def lockedUpdateJobStatus_eq time_Now_def Let_def ctx_defs
      split: option.split)

theorem registerMirror_updates_only_witness:
  "\<exists>m' c'.
     registerMirror ex_manager ex_context \<lparr>ID = ''m1'', JobStatus = ex_status\<lparr>Status := Paused\<rparr>\<rparr> =
       Return (m', c') ()
     \<and> client m' = [''m1'' \<mapsto> ex_status\<lparr>Status := Paused, LastOnline := 102, LastRegister := 101\<rparr>]
     \<and> Written c' =
         [(200, StatusJSON \<lparr>ID = ''m1'',
             JobStatus = ex_status\<lparr>Status := Paused, LastOnline := 100, LastRegister := 101\<rparr>\<rparr>)]"
proof -
  let ?mirror = "\<lparr>ID = ''m1'', JobStatus = ex_status\<lparr>Status := Paused\<rparr>\<rparr>"
  have free: "\<not> rwmu ex_manager"
    by (simp add: ex_manager_def)
  from registerMirror_updates_only [OF free, of ex_context ?mirror]
  obtain m' c' where
    "registerMirror ex_manager ex_context ?mirror = Return (m', c') ()"
    "case client ex_manager (ID ?mirror) of
       None \<Rightarrow>
         client m' = client ex_manager
         \<and> Written c' = Written ex_context @
              [(500, ErrorJSON (FailedToGetMirror (NotFound (ID ?mirror)))),
               (500, ErrorJSON (FailedToRegisterMirror
                                  (FailedToGetMirror (NotFound (ID ?mirror)))))]
     | Some old \<Rightarrow>
         client m' = (client ex_manager)(ID ?mirror \<mapsto>
             (JobStatus ?mirror)\<lparr>LastRegister := clock ex_manager (Suc (ticks ex_manager)),
                                 LastOnline := clock ex_manager (Suc (Suc (ticks ex_manager)))\<rparr>)
         \<and> Written c' = Written ex_context @
              [(200, StatusJSON (?mirror\<lparr>JobStatus :=
                  (JobStatus ?mirror)\<lparr>LastOnline := clock ex_manager (ticks ex_manager),
                                      LastRegister := clock ex_manager (Suc (ticks ex_manager))\<rparr>\<rparr>))]"
    by blast
  then show ?thesis
    by (intro exI [of _ m'] exI [of _ c']) (simp add: ex_defs)
qed

section \<open>Schedule batches\<close>

text \<open>
  An item with an empty ID, on a store that holds no object of the empty name: the
  handler panics in the get of that item, after the 400 response.
\<close>

lemma updateSchedules_empty_id_panics:
  "\<not> rwmu m \<Longrightarrow> MirrorID schedule = [] \<Longrightarrow> client m [] = None \<Longrightarrow>
   updateSchedules m c (schedule # rest) =
     Panic (m\<lparr>rwmu := True, calls := calls m @ [GetCall []]\<rparr>,
            returnErrJSON
              (c_Error (returnErrJSON c 400 MirrorNameEmpty) (FailedToGetMirror (NotFound [])))
              500 (FailedToGetMirror (NotFound [])))"
  by (simp add: lockedGetJob_eq)

text \<open>
  C6, at a failing input: the batch of the spec's example, \<open>A\<close>, an empty ID and \<open>B\<close>, on
  a store that holds \<open>A\<close> and \<open>B\<close>. \<open>A\<close> is updated. For the empty ID the handler writes
  the 400 response and goes on with the loop body: it calls the store's \<open>Get\<close> with the
  empty name, the get fails, \<open>GetJob\<close> panics with the lock held, and \<open>B\<close> is never
  reached.
\<close>

theorem updateSchedules_empty_id_crashes:
  "updateSchedules ex_fleet ex_context
       [\<lparr>MirrorID = ''A'', NextSchedule = 7\<rparr>, \<lparr>MirrorID = [], NextSchedule = 8\<rparr>,
        \<lparr>MirrorID = ''B'', NextSchedule = 9\<rparr>] =
     Panic
       (ex_fleet\<lparr>client := (client ex_fleet)(''A'' \<mapsto> ex_status\<lparr>LastOnline := 100, Scheduled := 7\<rparr>),
                 rwmu := True,
                 calls := [GetCall ''A'', GetCall ''A'', UpdateCall ''A'', GetCall []],
                 ticks := 1\<rparr>,
        ex_context
          \<lparr>Errors := [FailedToGetMirror (NotFound [])],
           Written := [(400, ErrorJSON MirrorNameEmpty),
                       (500, ErrorJSON (FailedToGetMirror (NotFound [])))]\<rparr>)
   \<and> client ex_fleet ''B'' = Some ex_status \<and> Scheduled ex_status = 6"
  by (simp add: lockedGetJob_eq lockedUpdateJobStatus_eq Let_def ctx_defs ex_defs)

text \<open>
  C7, as stated, fails on the mirror \<open>m1\<close>, whose \<open>LastOnline\<close> is 1 and whose schedule
  is 6: the batch that schedules it at 7 stores the new schedule and sets \<open>LastOnline\<close> to
  the time of the write, 100.
\<close>

theorem updateSchedules_sets_LastOnline:
  "updateSchedules ex_manager ex_context [\<lparr>MirrorID = ''m1'', NextSchedule = 7\<rparr>] =
     Return
       (ex_manager\<lparr>client := [''m1'' \<mapsto> ex_status\<lparr>LastOnline := 100, Scheduled := 7\<rparr>],
                   calls := [GetCall ''m1'', GetCall ''m1'', UpdateCall ''m1''],
                   ticks := 1\<rparr>,
        ex_context\<lparr>Written := [(200, EmptyJSON)]\<rparr>) ()
   \<and> LastOnline ex_status = 1 \<and> Scheduled ex_status = 6"
  by (simp add: lockedGetJob_eq lockedUpdateJobStatus_eq Let_def ctx_defs ex_defs)

text \<open>
  C7, amended: for a batch item whose mirror the store holds with another schedule, the
  write back stores the status read with \<open>Scheduled\<close> set to the new value and
  \<open>LastOnline\<close> set to the time of the write; every other field of the status, and the
  status of every other mirror, stays as it is. The handler then goes on with the rest
  of the batch (after the 400 response, if the ID is empty).
\<close>

theorem updateSchedules_item_frame:
  assumes "\<not> rwmu m" and "client m (MirrorID schedule) = Some st"
    and "Scheduled st \<noteq> NextSchedule schedule"
  shows "updateSchedules m c (schedule # rest) =
           updateSchedules
             (m\<lparr>client := (client m)(MirrorID schedule \<mapsto>
                    st\<lparr>Scheduled := NextSchedule schedule, LastOnline := clock m (ticks m)\<rparr>),
                 calls := calls m @ [GetCall (MirrorID schedule), GetCall (MirrorID schedule),
                                     UpdateCall (MirrorID schedule)],
                 ticks := Suc (ticks m)\<rparr>)
             (if MirrorID schedule = [] then returnErrJSON c 400 MirrorNameEmpty else c)
             rest"
  using assms
  by (simp add: lockedGetJob_eq lockedUpdateJobStatus_eq Let_def)

theorem updateSchedules_item_frame_witness:
  "updateSchedules ex_fleet ex_context [\<lparr>MirrorID = ''B'', NextSchedule = 9\<rparr>] =
     Return
       (ex_fleet\<lparr>client := (client ex_fleet)(''B'' \<mapsto> ex_status\<lparr>Scheduled := 9, LastOnline := 100\<rparr>),
                 calls := [GetCall ''B'', GetCall ''B'', UpdateCall ''B''],
                 ticks := 1\<rparr>,
        ex_context\<lparr>Written := [(200, EmptyJSON)]\<rparr>) ()"
  (is "_ = ?result")
proof -
  let ?item = "\<lparr>MirrorID = ''B'', NextSchedule = 9\<rparr>"
  let ?m = "ex_fleet\<lparr>client := (client ex_fleet)(MirrorID ?item \<mapsto>
                    ex_status\<lparr>Scheduled := NextSchedule ?item,
                               LastOnline := clock ex_fleet (ticks ex_fleet)\<rparr>),
                 calls := calls ex_fleet @ [GetCall (MirrorID ?item), GetCall (MirrorID ?item),
                                     UpdateCall (MirrorID ?item)],
                 ticks := Suc (ticks ex_fleet)\<rparr>"
  let ?c = "if MirrorID ?item = [] then returnErrJSON ex_context 400 MirrorNameEmpty
            else ex_context"
  have free: "\<not> rwmu ex_fleet"
    and stored: "client ex_fleet (MirrorID ?item) = Some ex_status"
    and differs: "Scheduled ex_status \<noteq> NextSchedule ?item"
    by (simp_all add: ex_fleet_def ex_status_def)
  have step: "updateSchedules ex_fleet ex_context [?item] = updateSchedules ?m ?c []"
    by (rule updateSchedules_item_frame [OF free stored differs])
  have rest: "updateSchedules ?m ?c [] = ?result"
    by (simp add: ctx_defs ex_fleet_def ex_clock_def ex_context_def)
  from step rest show ?thesis
    by (rule trans)
qed

text \<open>
  C8. For a batch item whose mirror the store holds: if the stored schedule is the
  submitted one, the handler goes on with the rest of the batch after the get alone
  (no \<open>Update\<close> call, no reading of the clock, the store as it was). And the same
  one-item batch submitted twice (the second request with a context \<open>c'\<close> of its own)
  makes one \<open>Update\<close> call in the first request if the schedule differed, none if it
  did not, and none in the second, which leaves the store and the clock as the first
  request left them, the mirror scheduled as submitted.
\<close>

theorem updateSchedules_idempotent:
  assumes "\<not> rwmu m" and "client m (MirrorID schedule) = Some st"
  shows "(Scheduled st = NextSchedule schedule \<longrightarrow>
            updateSchedules m c (schedule # rest) =
              updateSchedules (m\<lparr>calls := calls m @ [GetCall (MirrorID schedule)]\<rparr>)
                (if MirrorID schedule = [] then returnErrJSON c 400 MirrorNameEmpty else c) rest)
         \<and> (\<exists>m1 c1 m2 c2.
               updateSchedules m c [schedule] = Return (m1, c1) ()
               \<and> updateSchedules m1 c' [schedule] = Return (m2, c2) ()
               \<and> writes m1 = writes m + (if Scheduled st = NextSchedule schedule then 0 else 1)
               \<and> (Scheduled st = NextSchedule schedule \<longrightarrow>
                    client m1 = client m \<and> ticks m1 = ticks m)
               \<and> writes m2 = writes m1
               \<and> client m2 = client m1
               \<and> ticks m2 = ticks m1
               \<and> map_option Scheduled (client m1 (MirrorID schedule)) = Some (NextSchedule schedule))"
  using assms
  by (simp add: lockedGetJob_eq lockedUpdateJobStatus_eq Let_def writes_def)

theorem updateSchedules_idempotent_witness:
  "\<exists>m1 c1 m2 c2.
     updateSchedules ex_manager ex_context [\<lparr>MirrorID = ''m1'', NextSchedule = 7\<rparr>] =
       Return (m1, c1) ()
     \<and> updateSchedules m1 ex_context [\<lparr>MirrorID = ''m1'', NextSchedule = 7\<rparr>] =
       Return (m2, c2) ()
     \<and> writes m1 = 1 \<and> writes m2 = 1 \<and> client m2 = client m1 \<and> ticks m2 = ticks m1
     \<and> map_option Scheduled (client m1 ''m1'') = Some 7"
proof -
  let ?item = "\<lparr>MirrorID = ''m1'', NextSchedule = 7\<rparr>"
  have free: "\<not> rwmu ex_manager"
    and stored: "client ex_manager (MirrorID ?item) = Some ex_status"
    by (simp_all add: ex_manager_def)
  from updateSchedules_idempotent [OF free stored, of ex_context "[]" ex_context]
  obtain m1 c1 m2 c2 where
    "updateSchedules ex_manager ex_context [?item] = Return (m1, c1) ()"
    "updateSchedules m1 ex_context [?item] = Return (m2, c2) ()"
    "writes m1 = writes ex_manager + (if Scheduled ex_status = NextSchedule ?item then 0 else 1)"
    "writes m2 = writes m1" "client m2 = client m1" "ticks m2 = ticks m1"
    "map_option Scheduled (client m1 (MirrorID ?item)) = Some (NextSchedule ?item)"
    by blast
  then show ?thesis
    by (intro exI [of _ m1] exI [of _ c1] exI [of _ m2] exI [of _ c2])
       (simp add: writes_def ex_manager_def ex_status_def)
qed

section \<open>Commands\<close>

text \<open>
  A verb decoded from a request is one of the four that \<open>msg.go\<close> declares.
\<close>

lemma NewCmdVerbFromString_declared:
  "NewCmdVerbFromString s \<in> {CmdStart, CmdStop, CmdRestart, CmdPing}"
  by (simp add: NewCmdVerbFromString_def cmdVerbMapping_def CmdStart_def)

text \<open>
  The handler after its locked read, in any state \<open>m'\<close> of the manager with the lock
  free (the lock is released after the read): for the verbs \<open>CmdStop\<close> and \<open>CmdDisable\<close>
  it runs \<open>UpdateJobStatus\<close> and then \<open>PostJSON\<close>. If the store still holds the mirror,
  the new status is written and then the request is posted. If the mirror is gone, the
  get of \<open>UpdateJobStatus\<close> fails, its error is dropped on line 510, nothing is written
  and the request is posted all the same, after the error response of \<open>GetJobRaw\<close>.
\<close>

lemma handleClientCmd_write_then_post:
  assumes "\<not> rwmu m'" and "Cmd clientCmd = CmdStop \<or> Cmd clientCmd = CmdDisable"
  shows "bind_result
           (handleClientCmd_write CmdDisable clientCmd (m', c) (\<lparr>ID = mirrorID, JobStatus = st\<rparr>, None))
           (handleClientCmd_post mirrorID clientCmd post) =
         (case client m' mirrorID of
            Some old \<Rightarrow>
              handleClientCmd_post mirrorID clientCmd post
                (m'\<lparr>client := (client m')(mirrorID \<mapsto>
                       st\<lparr>Status := (if Cmd clientCmd = CmdDisable then Disabled else Paused),
                          LastOnline := clock m' (ticks m')\<rparr>),
                    calls := calls m' @ [GetCall mirrorID, UpdateCall mirrorID],
                    ticks := Suc (ticks m')\<rparr>, c) ()
          | None \<Rightarrow>
              handleClientCmd_post mirrorID clientCmd post
                (m'\<lparr>calls := calls m' @ [GetCall mirrorID]\<rparr>,
                 returnErrJSON (c_Error c (FailedToGetMirror (NotFound mirrorID))) 500
                   (FailedToGetMirror (NotFound mirrorID))) ())"
  using assms
  by (auto simp add: handleClientCmd_write_def lockedUpdateJobStatus_eq Let_def
      split: option.split)

lemma handleClientCmd_post_eq:
  "handleClientCmd_post mirrorID clientCmd post (m, c) u =
     Return
       (m\<lparr>calls := calls m @ [PostCall mirrorID clientCmd]\<rparr>,
        case post of
          Some e \<Rightarrow>
            returnErrJSON (c_Error c (PostCommandFail mirrorID e)) 500 (PostCommandFail mirrorID e)
        | None \<Rightarrow>
            c_JSON c 200 (InfoJSON (''successfully send command to mirror '' @ mirrorID))) ()"
  by (simp add: handleClientCmd_post_def PostJSON_def Let_def split: option.split)

text \<open>
  C9. For a command on a mirror that the store holds (and \<open>CmdDisable\<close> a verb other
  than \<open>CmdStop\<close>), whatever \<open>PostJSON\<close> returns, success or an error (\<open>post\<close>):
  the handler returns; the stored status is \<open>Paused\<close> for the verb \<open>CmdStop\<close> and
  \<open>Disabled\<close> for \<open>CmdDisable\<close>, and the store is as it was for every other verb; the
  manager at the end does not depend on \<open>post\<close>; and in the history of the calls the
  \<open>Update\<close> that writes the status comes before the request of \<open>PostJSON\<close>, which is
  the last call. The part of the handler before \<open>PostJSON\<close> ends in the same state
  without that last call. (For such a mirror the write of line 510 succeeds; what the
  handler does when it fails is the lemma above.)
\<close>

theorem handleClientCmd_local_effect:
  assumes "\<not> rwmu m" and "mirrorID \<noteq> []" and "client m mirrorID = Some st"
    and "CmdDisable \<noteq> CmdStop"
  shows "handleClientCmd_local CmdDisable m c mirrorID clientCmd =
           Return
             (if Cmd clientCmd = CmdStop \<or> Cmd clientCmd = CmdDisable
              then m\<lparr>client := (client m)(mirrorID \<mapsto>
                         st\<lparr>Status := (if Cmd clientCmd = CmdStop then Paused else Disabled),
                            LastOnline := clock m (ticks m)\<rparr>),
                      calls := calls m @ [GetCall mirrorID, GetCall mirrorID, UpdateCall mirrorID],
                      ticks := Suc (ticks m)\<rparr>
              else m\<lparr>calls := calls m @ [GetCall mirrorID]\<rparr>,
              c) ()
         \<and> handleClientCmd CmdDisable m c mirrorID clientCmd post =
           Return
             (if Cmd clientCmd = CmdStop \<or> Cmd clientCmd = CmdDisable
              then m\<lparr>client := (client m)(mirrorID \<mapsto>
                         st\<lparr>Status := (if Cmd clientCmd = CmdStop then Paused else Disabled),
                            LastOnline := clock m (ticks m)\<rparr>),
                      calls := calls m @ [GetCall mirrorID, GetCall mirrorID, UpdateCall mirrorID,
                                          PostCall mirrorID clientCmd],
                      ticks := Suc (ticks m)\<rparr>
              else m\<lparr>calls := calls m @ [GetCall mirrorID, PostCall mirrorID clientCmd]\<rparr>,
              case post of
                Some e \<Rightarrow>
                  returnErrJSON (c_Error c (PostCommandFail mirrorID e)) 500
                    (PostCommandFail mirrorID e)
              | None \<Rightarrow>
                  c_JSON c 200 (InfoJSON (''successfully send command to mirror '' @ mirrorID))) ()"
  using assms
  by (auto simp add: handleClientCmd_def handleClientCmd_local_def handleClientCmd_write_def
      handleClientCmd_post_def PostJSON_def lockedGetJob_eq lockedUpdateJobStatus_eq Let_def
      split: option.split)

theorem handleClientCmd_local_effect_witness:
  "handleClientCmd 4 ex_manager ex_context ''m1'' \<lparr>Cmd = CmdStop, Force = False\<rparr> None =
     Return
       (ex_manager\<lparr>client := [''m1'' \<mapsto> ex_status\<lparr>Status := Paused, LastOnline := 100\<rparr>],
                   calls := [GetCall ''m1'', GetCall ''m1'', UpdateCall ''m1'',
                             PostCall ''m1'' \<lparr>Cmd = CmdStop, Force = False\<rparr>],
                   ticks := 1\<rparr>,
        ex_context\<lparr>Written :=
          [(200, InfoJSON ''successfully send command to mirror m1'')]\<rparr>) ()
   \<and> handleClientCmd 4 ex_manager ex_context ''m1'' \<lparr>Cmd = CmdStop, Force = False\<rparr>
       (Some (External ''timeout'')) =
     Return
       (ex_manager\<lparr>client := [''m1'' \<mapsto> ex_status\<lparr>Status := Paused, LastOnline := 100\<rparr>],
                   calls := [GetCall ''m1'', GetCall ''m1'', UpdateCall ''m1'',
                             PostCall ''m1'' \<lparr>Cmd = CmdStop, Force = False\<rparr>],
                   ticks := 1\<rparr>,
        ex_context\<lparr>Errors := [PostCommandFail ''m1'' (External ''timeout'')],
                    Written :=
          [(500, ErrorJSON (PostCommandFail ''m1'' (External ''timeout'')))]\<rparr>) ()
   \<and> handleClientCmd 4 ex_manager ex_context ''m1'' \<lparr>Cmd = 4, Force = True\<rparr> None =
     Return
       (ex_manager\<lparr>client := [''m1'' \<mapsto> ex_status\<lparr>Status := Disabled, LastOnline := 100\<rparr>],
                   calls := [GetCall ''m1'', GetCall ''m1'', UpdateCall ''m1'',
                             PostCall ''m1'' \<lparr>Cmd = 4, Force = True\<rparr>],
                   ticks := 1\<rparr>,
        ex_context\<lparr>Written :=
          [(200, InfoJSON ''successfully send command to mirror m1'')]\<rparr>) ()
   \<and> handleClientCmd 4 ex_manager ex_context ''m1'' \<lparr>Cmd = CmdRestart, Force = False\<rparr> None =
     Return
       (ex_manager\<lparr>calls := [GetCall ''m1'', PostCall ''m1'' \<lparr>Cmd = CmdRestart, Force = False\<rparr>]\<rparr>,
        ex_context\<lparr>Written :=
          [(200, InfoJSON ''successfully send command to mirror m1'')]\<rparr>) ()"
  (is "?stop \<and> ?timeout \<and> ?disable \<and> ?restart")
proof -
  have free: "\<not> rwmu ex_manager" and named: "''m1'' \<noteq> []"
    and stored: "client ex_manager ''m1'' = Some ex_status"
    and verbs: "(4 :: CmdVerb) \<noteq> CmdStop"
    by (simp_all add: ex_manager_def CmdStop_def)
  note effect = handleClientCmd_local_effect [OF free named stored verbs, of ex_context]
  have stop: ?stop
    using effect [of "\<lparr>Cmd = CmdStop, Force = False\<rparr>" None]
    by (simp add: ctx_defs ex_defs CmdStop_def)
  have timeout: ?timeout
    using effect [of "\<lparr>Cmd = CmdStop, Force = False\<rparr>" "Some (External ''timeout'')"]
    by (simp add: ctx_defs ex_defs CmdStop_def)
  have disable: ?disable
    using effect [of "\<lparr>Cmd = 4, Force = True\<rparr>" None]
    by (simp add: ctx_defs ex_defs CmdStop_def)
  have restart: ?restart
    using effect [of "\<lparr>Cmd = CmdRestart, Force = False\<rparr>" None]
    by (simp add: ctx_defs ex_defs CmdStop_def CmdRestart_def)
  from stop timeout disable restart show ?thesis
    by (intro conjI)
qed

section \<open>Decoding unknown command verbs\<close>

text \<open>
  C10, as stated, fails at the string \<open>disable\<close>: it is not a key of the mapping,
  \<open>NewCmdVerbFromString\<close> maps it to \<open>CmdStart\<close>, and \<open>UnmarshalJSON\<close> (here with a
  decoder that yields the string it is given) stores \<open>CmdStart\<close> and returns no error.
\<close>

theorem NewCmdVerbFromString_disable_is_CmdStart:
  "''disable'' \<notin> set (map fst cmdVerbMapping)
   \<and> NewCmdVerbFromString ''disable'' = CmdStart
   \<and> UnmarshalJSON Inr CmdPing ''disable'' = (CmdStart, None)"
  by (simp add: NewCmdVerbFromString_def UnmarshalJSON_def cmdVerbMapping_def CmdStart_def)

text \<open>
  C10, amended: every string that is not one of \<open>start\<close>, \<open>stop\<close>, \<open>restart\<close> and \<open>ping\<close>
  is decoded to the zero value \<open>CmdStart\<close>, and \<open>UnmarshalJSON\<close> returns no error for it,
  whatever the receiver held before.
\<close>

theorem NewCmdVerbFromString_unknown:
  assumes "s \<notin> {''start'', ''stop'', ''restart'', ''ping''}"
  shows "NewCmdVerbFromString s = CmdStart
         \<and> (\<forall>unmarshal v b. unmarshal b = Inr s \<longrightarrow>
               UnmarshalJSON unmarshal v b = (CmdStart, None))"
proof -
  from assms have "map_of cmdVerbMapping s = None"
    by (simp add: cmdVerbMapping_def)
  then have verb: "NewCmdVerbFromString s = CmdStart"
    by (simp add: NewCmdVerbFromString_def CmdStart_def)
  then show ?thesis
    by (simp add: UnmarshalJSON_def)
qed

theorem NewCmdVerbFromString_unknown_witness:
  "''reload'' \<notin> {''start'', ''stop'', ''restart'', ''ping''}
   \<and> NewCmdVerbFromString ''reload'' = CmdStart
   \<and> UnmarshalJSON Inr CmdStop ''reload'' = (CmdStart, None)"
proof -
  have unknown: "''reload'' \<notin> {''start'', ''stop'', ''restart'', ''ping''}"
    by simp
  have decoded: "Inr ''reload'' = (Inr ''reload'' :: error + string)"
    by simp
  from NewCmdVerbFromString_unknown [OF unknown]
  have verb: "NewCmdVerbFromString ''reload'' = CmdStart"
    and all: "\<forall>(unmarshal :: string \<Rightarrow> error + string) v b. unmarshal b = Inr ''reload'' \<longrightarrow>
               UnmarshalJSON unmarshal v b = (CmdStart, None)"
    by (rule conjunct1, rule conjunct2)
  from all have "Inr ''reload'' = (Inr ''reload'' :: error + string) \<longrightarrow>
      UnmarshalJSON Inr CmdStop ''reload'' = (CmdStart, None)"
    by (elim allE)
  with decoded have "UnmarshalJSON Inr CmdStop ''reload'' = (CmdStart, None)"
    by (rule rev_mp)
  with unknown verb show ?thesis
    by (intro conjI)
qed

end
